theory Spec2Isabelle
  imports Main "HOL-Library.Sublist" "HOL-Library.AList"
begin

section \<open>Demo-mode interception: a shallow embedding\<close>

text \<open>
  The theory follows two source files, \<^verbatim>\<open>middleware/demo.ts\<close> (route table,
  \<^verbatim>\<open>getRouteAction\<close>, \<^verbatim>\<open>extractUserFromToken\<close>, \<^verbatim>\<open>demoMiddleware\<close>) and
  \<^verbatim>\<open>services/demo.ts\<close> (policy predicates, session store, reset state, simulated
  response).

  Conventions of the embedding.
  \<^item> A JavaScript string is a \<open>string\<close>; every character of the sources fits one
    \<open>char\<close> (the umlauts of the messages are the code units 0xE4, 0xF6, 0xFC).
  \<^item> A value of type \<^verbatim>\<open>string | undefined\<close> or \<^verbatim>\<open>string | null\<close> is a
    \<open>string option\<close>; \<open>truthy\<close> is JavaScript's truthiness on it (the empty string
    is falsy). The result of a property read is a \<open>js_value\<close>, since a read can yield
    what no type annotation of the source says.
  \<^item> An object literal used as a table is the association list of its entries, in the
    order they are written (the order \<^verbatim>\<open>Object.entries\<close> yields for such keys). A
    property read \<^verbatim>\<open>table[key]\<close> finds the entry written in the literal or else the
    member that the literal inherits from \<^verbatim>\<open>Object.prototype\<close> under that name, such
    as \<^verbatim>\<open>constructor\<close> or \<^verbatim>\<open>toString\<close>.
  \<^item> An exception is a value: a function that can raise returns a sum, \<open>Inl\<close> the
    exception; the middleware records a raise as the effect \<open>Raise\<close>.
  \<^item> A \<^verbatim>\<open>Date\<close> is its time value, an \<open>int\<close> of milliseconds; the reset interval
    is an \<open>int\<close> of hours.
  \<^item> The process-wide configuration \<^verbatim>\<open>config.demoMode\<close>, the clock and the token
    verifier are not defined in the two files; they are parameters of the functions that
    read them, as are the properties of the built-in members of \<^verbatim>\<open>Object.prototype\<close>.
\<close>

subsection \<open>Truthiness\<close>

definition truthy :: "string option \<Rightarrow> bool" where
  "truthy v = (case v of None \<Rightarrow> False | Some s \<Rightarrow> s \<noteq> [])"

text \<open>\<^verbatim>\<open>a || b\<close> on possibly absent strings.\<close>

definition or_else :: "string option \<Rightarrow> string option \<Rightarrow> string option" where
  "or_else a b = (if truthy a then a else b)"

subsection \<open>Values, exceptions and property reads\<close>

text \<open>
  The values a property read can yield: \<^verbatim>\<open>undefined\<close>, \<^verbatim>\<open>null\<close>, a number, a
  string, or an object (a function is an object), named by where it is found.
\<close>

datatype js_value = Undefined | Null | Num int | Str string | Obj string

definition js_truthy :: "js_value \<Rightarrow> bool" where
  "js_truthy v =
     (case v of
        Undefined \<Rightarrow> False
      | Null \<Rightarrow> False
      | Num n \<Rightarrow> n \<noteq> 0
      | Str s \<Rightarrow> s \<noteq> []
      | Obj name \<Rightarrow> True)"

text \<open>\<^verbatim>\<open>a || b\<close> on values.\<close>

definition js_or :: "js_value \<Rightarrow> js_value \<Rightarrow> js_value" where
  "js_or a b = (if js_truthy a then a else b)"

definition of_optional :: "string option \<Rightarrow> js_value" where
  "of_optional v = (case v of None \<Rightarrow> Undefined | Some s \<Rightarrow> Str s)"

text \<open>
  An exception: a \<^verbatim>\<open>TypeError\<close> of the language, or whatever a collaborator throws.
\<close>

datatype error = TypeError | Thrown string

text \<open>
  The names under which every object literal inherits a member from
  \<^verbatim>\<open>Object.prototype\<close>: eleven functions, and \<^verbatim>\<open>__proto__\<close>, which reads as the
  prototype object itself. All twelve are objects, hence truthy and not strings.
\<close>

definition objectPrototypeKeys :: "string list" where
  "objectPrototypeKeys =
     [''constructor'', ''__defineGetter__'', ''__defineSetter__'', ''hasOwnProperty'',
      ''__lookupGetter__'', ''__lookupSetter__'', ''isPrototypeOf'',
      ''propertyIsEnumerable'', ''toString'', ''valueOf'', ''__proto__'',
      ''toLocaleString'']"

definition inheritedMember :: "string \<Rightarrow> js_value" where
  "inheritedMember key = Obj (''Object.prototype.'' @ key)"

text \<open>
  \<^verbatim>\<open>obj[key]\<close> for an object literal whose own values are strings: the own entry, else
  the inherited member, else \<^verbatim>\<open>undefined\<close>.
\<close>

definition objectRead :: "(string \<times> string) list \<Rightarrow> string \<Rightarrow> js_value" where
  "objectRead obj key =
     (case map_of obj key of
        Some v \<Rightarrow> Str v
      | None \<Rightarrow> (if key \<in> set objectPrototypeKeys then inheritedMember key else Undefined))"

text \<open>
  Reading a property of one of the twelve inherited members is the work of the JavaScript
  engine: \<open>engine member key\<close> is the outcome of \<^verbatim>\<open>Object.prototype[member][key]\<close>, a
  value or an exception (ECMAScript makes the accessors \<^verbatim>\<open>caller\<close> and
  \<^verbatim>\<open>arguments\<close> of a built-in function throw). The engine is a parameter of the
  functions that make such a read.
\<close>

type_synonym engine = "string \<Rightarrow> string \<Rightarrow> error + js_value"

subsection \<open>The regular expressions of the route resolver\<close>

text \<open>
  Every regular expression of \<^verbatim>\<open>getRouteAction\<close> is anchored (\<^verbatim>\<open>^...$\<close>, no flags)
  and is a sequence of ordinary characters and of the group \<^verbatim>\<open>[^/]+\<close>: one or more
  characters other than \<open>/\<close>. \<open>Lit c\<close> is the character \<open>c\<close>, \<open>Seg\<close> the group.
\<close>

datatype tok = Lit char | Seg

fun regex_test :: "tok list \<Rightarrow> string \<Rightarrow> bool" where
  "regex_test [] s = (s = [])"
| "regex_test (Lit c # ts) [] = False"
| "regex_test (Lit c # ts) (d # s) = (c = d \<and> regex_test ts s)"
| "regex_test (Seg # ts) [] = False"
| "regex_test (Seg # ts) (d # s) =
     (d \<noteq> CHR ''/'' \<and> (regex_test (Seg # ts) s \<or> regex_test ts s))"

text \<open>
  \<^verbatim>\<open>new RegExp('^' + routePattern.replace(/:[^/]+/g, '[^/]+') + '$')\<close>: a colon followed
  by at least one character other than \<open>/\<close> is replaced, together with the longest run of
  such characters, by the group; every other character stands for itself (the keys of the
  table are made of lower-case letters, \<open>/\<close> and \<open>-\<close>, none of which is special in a
  regular expression).
\<close>

function routeRegex :: "string \<Rightarrow> tok list" where
  "routeRegex [] = []"
| "routeRegex (c # cs) =
     (if c = CHR '':'' \<and> takeWhile (\<lambda>d. d \<noteq> CHR ''/'') cs \<noteq> []
      then Seg # routeRegex (dropWhile (\<lambda>d. d \<noteq> CHR ''/'') cs)
      else Lit c # routeRegex cs)"
  by pat_completeness auto
termination
  by (relation "measure length") (auto simp: length_dropWhile_le less_Suc_eq_le)

text \<open>The regular-expression literal \<^verbatim>\<open>/^pre[^/]+post$/\<close>.\<close>

definition seg_regex :: "string \<Rightarrow> string \<Rightarrow> tok list" where
  "seg_regex pre post = map Lit pre @ Seg # map Lit post"

subsection \<open>The route table\<close>

type_synonym method_map = "(string \<times> string) list"

definition ROUTE_ACTION_MAP :: "(string \<times> method_map) list" where
  "ROUTE_ACTION_MAP =
   [(''/api/server/start'', [(''POST'', ''server.start'')]),
    (''/api/server/stop'', [(''POST'', ''server.stop'')]),
    (''/api/server/restart'', [(''POST'', ''server.restart'')]),
    (''/api/server/quick-settings'', [(''PUT'', ''config.edit'')]),
    (''/api/server/config'', [(''PUT'', ''config.edit'')]),
    (''/api/server/patchline'', [(''PUT'', ''config.edit'')]),
    (''/api/console/command'', [(''POST'', ''console.execute'')]),
    (''/api/players'', [(''POST'', ''players.kick'')]),
    (''/api/management/whitelist'',
       [(''POST'', ''players.whitelist''), (''PUT'', ''players.whitelist''),
        (''DELETE'', ''players.whitelist'')]),
    (''/api/management/bans'', [(''POST'', ''players.ban''), (''DELETE'', ''players.unban'')]),
    (''/api/management/permissions'',
       [(''POST'', ''players.permissions''), (''PUT'', ''players.permissions''),
        (''DELETE'', ''players.permissions'')]),
    (''/api/backups'', [(''POST'', ''backups.create''), (''DELETE'', ''backups.delete'')]),
    (''/api/backups/restore'', [(''POST'', ''backups.restore'')]),
    (''/api/scheduler'',
       [(''POST'', ''scheduler.edit''), (''PUT'', ''scheduler.edit''),
        (''DELETE'', ''scheduler.edit'')]),
    (''/api/scheduler/tasks'',
       [(''POST'', ''scheduler.edit''), (''PUT'', ''scheduler.edit''),
        (''DELETE'', ''scheduler.edit'')]),
    (''/api/scheduler/config'', [(''PUT'', ''scheduler.edit'')]),
    (''/api/scheduler/backup/run'', [(''POST'', ''backups.create'')]),
    (''/api/scheduler/quick-commands'', [(''POST'', ''scheduler.edit'')]),
    (''/api/scheduler/broadcast'', [(''POST'', ''scheduler.edit'')]),
    (''/api/scheduler/restart/cancel'', [(''POST'', ''scheduler.edit'')]),
    (''/api/assets/extract'', [(''POST'', ''assets.manage'')]),
    (''/api/assets/cache'', [(''DELETE'', ''assets.manage'')]),
    (''/api/server/plugin/install'', [(''POST'', ''mods.install'')]),
    (''/api/server/plugin/uninstall'', [(''DELETE'', ''mods.install'')]),
    (''/api/management/worlds'',
       [(''POST'', ''worlds.manage''), (''PUT'', ''worlds.manage''),
        (''DELETE'', ''worlds.manage'')]),
    (''/api/management/mods'', [(''POST'', ''mods.install''), (''DELETE'', ''mods.delete'')]),
    (''/api/management/mods/upload'', [(''POST'', ''mods.install'')]),
    (''/api/management/mods/toggle'', [(''POST'', ''mods.toggle'')]),
    (''/api/management/mods/config'', [(''PUT'', ''mods.config'')]),
    (''/api/management/plugins'',
       [(''POST'', ''plugins.install''), (''DELETE'', ''plugins.delete'')]),
    (''/api/management/plugins/upload'', [(''POST'', ''plugins.install'')]),
    (''/api/management/plugins/toggle'', [(''POST'', ''plugins.toggle'')]),
    (''/api/management/plugins/config'', [(''PUT'', ''plugins.config'')]),
    (''/api/auth/users'',
       [(''POST'', ''users.create''), (''PUT'', ''users.edit''), (''DELETE'', ''users.delete'')]),
    (''/api/roles'',
       [(''POST'', ''roles.manage''), (''PUT'', ''roles.manage''), (''DELETE'', ''roles.manage'')]),
    (''/api/management/settings'', [(''PUT'', ''settings.edit'')]),
    (''/api/auth/hytale/initiate'', [(''POST'', ''hytale_auth.manage'')]),
    (''/api/auth/hytale/reset'', [(''POST'', ''hytale_auth.manage'')]),
    (''/api/auth/hytale/persistence'', [(''POST'', ''hytale_auth.manage'')]),
    (''/api/chat/send'', [(''POST'', ''chat.send'')]),
    (''/api/management/activity'', [(''DELETE'', ''activity.clear'')])]"

subsection \<open>Resolving a route to an action\<close>

text \<open>
  First stage of \<^verbatim>\<open>getRouteAction\<close>:
  \<^verbatim>\<open>const routeMap = ROUTE_ACTION_MAP[path]; if (routeMap && routeMap[method]) return routeMap[method];\<close>
  The result \<open>Inr None\<close> means that the stage did not return, \<open>Inr (Some v)\<close> that it
  returned \<open>v\<close>. When the path is no key of the table but the name of an inherited
  member, \<^verbatim>\<open>routeMap\<close> is that member, and \<^verbatim>\<open>routeMap[method]\<close> is read by the engine.
\<close>

definition exactMatch ::
    "engine \<Rightarrow> (string \<times> method_map) list \<Rightarrow> string \<Rightarrow> string \<Rightarrow> error + js_value option" where
  "exactMatch engine table path method =
     (case map_of table path of
        Some routeMap \<Rightarrow>
          (if js_truthy (objectRead routeMap method) then Inr (Some (objectRead routeMap method))
           else Inr None)
      | None \<Rightarrow>
          (if path \<in> set objectPrototypeKeys
           then (case engine path method of
                   Inl e \<Rightarrow> Inl e
                 | Inr v \<Rightarrow> (if js_truthy v then Inr (Some v) else Inr None))
           else Inr None))"

text \<open>
  Second stage, the loop over \<^verbatim>\<open>Object.entries(ROUTE_ACTION_MAP)\<close>, which lists the
  entries written in the literal: the first entry whose pattern matches the whole path
  and whose method map reads a truthy value for the method returns that value.
\<close>

fun patternLoop ::
    "(string \<times> method_map) list \<Rightarrow> string \<Rightarrow> string \<Rightarrow> js_value option" where
  "patternLoop [] path method = None"
| "patternLoop ((routePattern, methodMap) # rest) path method =
     (if regex_test (routeRegex routePattern) path \<and> js_truthy (objectRead methodMap method)
      then Some (objectRead methodMap method)
      else patternLoop rest path method)"

text \<open>
  Third stage, the statements
  \<^verbatim>\<open>if (path.match(/^...$/) && method === 'M') return 'action';\<close>
  in the order of the source, one triple (regular expression, method, action) each.
\<close>

type_synonym rule = "tok list \<times> string \<times> string"

definition dynamicRoutes :: "rule list" where
  "dynamicRoutes =
   [(seg_regex ''/api/players/'' ''/kick'', ''POST'', ''players.kick''),
    (seg_regex ''/api/players/'' ''/ban'', ''POST'', ''players.ban''),
    (seg_regex ''/api/players/'' ''/ban'', ''DELETE'', ''players.unban''),
    (seg_regex ''/api/players/'' ''/teleport'', ''POST'', ''players.teleport''),
    (seg_regex ''/api/players/'' ''/teleport/death'', ''POST'', ''players.teleport''),
    (seg_regex ''/api/players/'' ''/kill'', ''POST'', ''players.kill''),
    (seg_regex ''/api/players/'' ''/heal'', ''POST'', ''players.heal''),
    (seg_regex ''/api/players/'' ''/gamemode'', ''POST'', ''players.gamemode''),
    (seg_regex ''/api/players/'' ''/give'', ''POST'', ''players.give''),
    (seg_regex ''/api/players/'' ''/effect'', ''POST'', ''players.effects''),
    (seg_regex ''/api/players/'' ''/inventory/clear'', ''POST'', ''players.clear_inventory''),
    (seg_regex ''/api/players/'' ''/message'', ''POST'', ''players.message''),
    (seg_regex ''/api/players/'' ''/whitelist'', ''POST'', ''players.whitelist''),
    (seg_regex ''/api/players/'' ''/whitelist'', ''DELETE'', ''players.whitelist''),
    (seg_regex ''/api/players/'' ''/op'', ''POST'', ''players.op''),
    (seg_regex ''/api/players/'' ''/op'', ''DELETE'', ''players.op''),
    (seg_regex ''/api/players/'' ''/respawn'', ''POST'', ''players.respawn''),
    (seg_regex ''/api/players/'' ''/deaths'', ''POST'', ''players.edit''),
    (seg_regex ''/api/auth/users/'' [], ''PUT'', ''users.edit''),
    (seg_regex ''/api/auth/users/'' [], ''DELETE'', ''users.delete''),
    (seg_regex ''/api/roles/'' [], ''PUT'', ''roles.manage''),
    (seg_regex ''/api/roles/'' [], ''DELETE'', ''roles.manage''),
    (seg_regex ''/api/backups/'' [], ''DELETE'', ''backups.delete''),
    (seg_regex ''/api/backups/'' ''/restore'', ''POST'', ''backups.restore''),
    (seg_regex ''/api/scheduler/tasks/'' [], ''PUT'', ''scheduler.edit''),
    (seg_regex ''/api/scheduler/tasks/'' [], ''DELETE'', ''scheduler.edit''),
    (seg_regex ''/api/scheduler/quick-commands/'' [], ''PUT'', ''scheduler.edit''),
    (seg_regex ''/api/scheduler/quick-commands/'' [], ''DELETE'', ''scheduler.edit''),
    (seg_regex ''/api/scheduler/quick-commands/'' ''/execute'', ''POST'', ''scheduler.edit''),
    (seg_regex ''/api/management/whitelist/'' [], ''DELETE'', ''players.whitelist''),
    (seg_regex ''/api/management/bans/'' [], ''DELETE'', ''players.unban''),
    (seg_regex ''/api/management/permissions/users/'' [], ''DELETE'', ''players.permissions''),
    (seg_regex ''/api/management/permissions/groups/'' [], ''DELETE'', ''players.permissions''),
    (seg_regex ''/api/server/config/'' [], ''PUT'', ''config.edit''),
    (seg_regex ''/api/management/mods/'' [], ''DELETE'', ''mods.delete''),
    (seg_regex ''/api/management/plugins/'' [], ''DELETE'', ''plugins.delete'')]"

fun firstDynamicMatch :: "rule list \<Rightarrow> string \<Rightarrow> string \<Rightarrow> string option" where
  "firstDynamicMatch [] path method = None"
| "firstDynamicMatch ((re, m, action) # rest) path method =
     (if regex_test re path \<and> method = m then Some action
      else firstDynamicMatch rest path method)"

text \<open>
  The three stages in sequence, over a table and a list of statements of the third stage;
  \<^verbatim>\<open>getRouteAction\<close> is this sequence over the table and the statements of the source.
  \<open>Inr None\<close> is the result \<^verbatim>\<open>null\<close>.
\<close>

definition resolveRoute ::
    "engine \<Rightarrow> (string \<times> method_map) list \<Rightarrow> rule list \<Rightarrow> string \<Rightarrow> string \<Rightarrow>
     error + js_value option" where
  "resolveRoute engine table rules path method =
     (case exactMatch engine table path method of
        Inl e \<Rightarrow> Inl e
      | Inr (Some v) \<Rightarrow> Inr (Some v)
      | Inr None \<Rightarrow>
         (case patternLoop table path method of
            Some v \<Rightarrow> Inr (Some v)
          | None \<Rightarrow> Inr (map_option Str (firstDynamicMatch rules path method))))"

definition getRouteAction :: "engine \<Rightarrow> string \<Rightarrow> string \<Rightarrow> error + js_value option" where
  "getRouteAction engine path method =
     resolveRoute engine ROUTE_ACTION_MAP dynamicRoutes path method"

text \<open>
  The variant of \<^verbatim>\<open>getRouteAction\<close> without the loop over the table: the exact lookup,
  then the statements of the third stage.
\<close>

definition getRouteAction_noLoop ::
    "engine \<Rightarrow> string \<Rightarrow> string \<Rightarrow> error + js_value option" where
  "getRouteAction_noLoop engine path method =
     (case exactMatch engine ROUTE_ACTION_MAP path method of
        Inl e \<Rightarrow> Inl e
      | Inr (Some v) \<Rightarrow> Inr (Some v)
      | Inr None \<Rightarrow> Inr (map_option Str (firstDynamicMatch dynamicRoutes path method)))"

subsection \<open>Matching rules, for stating precedence\<close>







subsection \<open>Configuration, policy predicates\<close>

text \<open>
  \<^verbatim>\<open>config.demoMode\<close>, read by both files and defined in neither: the enabled flag, the
  reset interval in hours and the list of simulated actions.
\<close>

record DemoModeConfig =
  enabled :: bool
  configResetIntervalHours :: int
  simulatedActions :: "string list"

definition DEMO_USERNAME :: string where
  "DEMO_USERNAME = ''__demo__''"

definition DEMO_ROLE_ID :: string where
  "DEMO_ROLE_ID = ''demo''"

definition isDemoModeEnabled :: "DemoModeConfig \<Rightarrow> bool" where
  "isDemoModeEnabled cfg = enabled cfg"

definition isDemoUser :: "string option \<Rightarrow> bool" where
  "isDemoUser username = (username = Some DEMO_USERNAME)"

text \<open>\<^verbatim>\<open>config.demoMode.simulatedActions.includes(action)\<close>\<close>

definition shouldSimulateAction :: "DemoModeConfig \<Rightarrow> string \<Rightarrow> bool" where
  "shouldSimulateAction cfg action = (action \<in> set (simulatedActions cfg))"

subsection \<open>The simulated response\<close>

text \<open>
  The declared type of \<^verbatim>\<open>message\<close> is \<^verbatim>\<open>string\<close>; the field holds what the
  expression of the source yields.
\<close>

record SimulatedResponse =
  success :: bool
  message :: js_value
  simulated :: bool

definition messages :: "(string \<times> string) list" where
  "messages =
   [(''server.start'', ''Server wird gestartet... (Demo)''),
    (''server.stop'', ''Server wird gestoppt... (Demo)''),
    (''server.restart'', ''Server wird neugestartet... (Demo)''),
    (''console.execute'', ''Befehl ausgef'' @ CHR 0xFC # ''hrt (Demo)''),
    (''players.kick'', ''Spieler wurde gekickt (Demo)''),
    (''players.ban'', ''Spieler wurde gebannt (Demo)''),
    (''players.unban'', ''Spieler wurde entbannt (Demo)''),
    (''players.whitelist'', ''Whitelist aktualisiert (Demo)''),
    (''players.op'', ''Operator-Status ge'' @ CHR 0xE4 # ''ndert (Demo)''),
    (''players.permissions'', ''Berechtigungen aktualisiert (Demo)''),
    (''players.teleport'', ''Spieler wurde teleportiert (Demo)''),
    (''players.kill'', ''Spieler wurde get'' @ CHR 0xF6 # ''tet (Demo)''),
    (''players.respawn'', ''Spieler wird respawnt (Demo)''),
    (''players.heal'', ''Spieler wurde geheilt (Demo)''),
    (''players.gamemode'', ''Spielmodus ge'' @ CHR 0xE4 # ''ndert (Demo)''),
    (''players.give'', ''Item gegeben (Demo)''),
    (''players.effects'', ''Effekt angewendet (Demo)''),
    (''players.clear_inventory'', ''Inventar geleert (Demo)''),
    (''players.message'', ''Nachricht gesendet (Demo)''),
    (''players.edit'', ''Spielerdaten aktualisiert (Demo)''),
    (''backups.create'', ''Backup wird erstellt... (Demo)''),
    (''backups.restore'', ''Backup wird wiederhergestellt... (Demo)''),
    (''backups.delete'', ''Backup gel'' @ CHR 0xF6 # ''scht (Demo)''),
    (''scheduler.edit'', ''Zeitplan aktualisiert (Demo)''),
    (''worlds.manage'', ''Welt-Einstellungen gespeichert (Demo)''),
    (''mods.install'', ''Mod installiert (Demo)''),
    (''mods.delete'', ''Mod gel'' @ CHR 0xF6 # ''scht (Demo)''),
    (''mods.config'', ''Mod-Konfiguration gespeichert (Demo)''),
    (''mods.toggle'', ''Mod Status ge'' @ CHR 0xE4 # ''ndert (Demo)''),
    (''plugins.install'', ''Plugin installiert (Demo)''),
    (''plugins.delete'', ''Plugin gel'' @ CHR 0xF6 # ''scht (Demo)''),
    (''plugins.config'', ''Plugin-Konfiguration gespeichert (Demo)''),
    (''plugins.toggle'', ''Plugin Status ge'' @ CHR 0xE4 # ''ndert (Demo)''),
    (''config.edit'', ''Konfiguration gespeichert (Demo)''),
    (''assets.manage'', ''Assets aktualisiert (Demo)''),
    (''users.create'', ''Benutzer erstellt (Demo)''),
    (''users.edit'', ''Benutzer aktualisiert (Demo)''),
    (''users.delete'', ''Benutzer gel'' @ CHR 0xF6 # ''scht (Demo)''),
    (''roles.manage'', ''Rolle aktualisiert (Demo)''),
    (''settings.edit'', ''Einstellungen gespeichert (Demo)''),
    (''hytale_auth.manage'', ''Authentifizierung aktualisiert (Demo)''),
    (''chat.send'', ''Nachricht gesendet (Demo)'')]"

definition fallbackMessage :: string where
  "fallbackMessage = ''Aktion ausgef'' @ CHR 0xFC # ''hrt (Demo)''"

text \<open>
  \<^verbatim>\<open>message: customMessage || messages[action] || 'Aktion ausgef..hrt (Demo)'\<close>; the
  optional parameter \<^verbatim>\<open>customMessage\<close> is \<open>None\<close> when it is not passed.
\<close>

definition createSimulatedResponse :: "string \<Rightarrow> string option \<Rightarrow> SimulatedResponse" where
  "createSimulatedResponse action customMessage =
     \<lparr>success = True,
      message =
        js_or (js_or (of_optional customMessage) (objectRead messages action))
          (Str fallbackMessage),
      simulated = True\<rparr>"

subsection \<open>Sessions and reset state\<close>

record DemoSession =
  username :: string
  createdAt :: int
  expiresAt :: int
  sessionId :: string

record DemoResetState =
  lastReset :: "int option"
  nextReset :: "int option"
  resetIntervalHours :: int

text \<open>
  The login response; \<open>login_expiresAt\<close> is the time value that the source prints with
  \<^verbatim>\<open>toISOString\<close>.
\<close>

record DemoLoginResponse =
  access_token :: string
  refresh_token :: string
  token_type :: string
  role :: string
  permissions :: "string list"
  login_isDemo :: bool
  login_expiresAt :: int

text \<open>
  The module state of \<^verbatim>\<open>services/demo.ts\<close>: the map \<^verbatim>\<open>demoSessions\<close> (a JavaScript
  \<^verbatim>\<open>Map\<close>, kept as its entries in insertion order), \<^verbatim>\<open>resetState\<close>, and the delays of
  the interval timers armed so far.
\<close>

record DemoState =
  demoSessions :: "(string \<times> DemoSession) list"
  resetState :: DemoResetState
  intervalTimers :: "int list"

definition initialState :: "DemoModeConfig \<Rightarrow> DemoState" where
  "initialState cfg =
     \<lparr>demoSessions = [],
      resetState = \<lparr>lastReset = None, nextReset = None,
                    resetIntervalHours = configResetIntervalHours cfg\<rparr>,
      intervalTimers = []\<rparr>"

definition DEMO_PERMISSIONS :: "string list" where
  "DEMO_PERMISSIONS =
   [''dashboard.view'', ''dashboard.stats'',
    ''server.view_status'', ''server.start'', ''server.stop'', ''server.restart'',
    ''server.quick_settings'',
    ''console.view'', ''console.execute'',
    ''performance.view'',
    ''players.view'', ''players.edit'', ''players.kick'', ''players.ban'', ''players.unban'',
    ''players.whitelist'', ''players.op'', ''players.permissions'', ''players.teleport'',
    ''players.kill'', ''players.respawn'', ''players.gamemode'', ''players.give'',
    ''players.heal'', ''players.effects'', ''players.clear_inventory'', ''players.message'',
    ''chat.view'', ''chat.send'',
    ''backups.view'', ''backups.create'', ''backups.restore'', ''backups.delete'',
    ''backups.download'',
    ''scheduler.view'', ''scheduler.edit'',
    ''worlds.view'', ''worlds.manage'',
    ''mods.view'', ''mods.install'', ''mods.delete'', ''mods.config'', ''mods.toggle'',
    ''plugins.view'', ''plugins.install'', ''plugins.delete'', ''plugins.config'',
    ''plugins.toggle'',
    ''config.view'', ''config.edit'',
    ''assets.view'', ''assets.manage'',
    ''users.view'',
    ''roles.view'',
    ''activity.view'',
    ''settings.view'']"

definition getDemoPermissions :: "string list" where
  "getDemoPermissions = DEMO_PERMISSIONS"

text \<open>
  \<^verbatim>\<open>createDemoLogin\<close>. The identifier made by \<^verbatim>\<open>generateSessionId\<close> (clock and random
  digits), the clock reading \<open>now\<close> and the two tokens issued by the authentication
  service are parameters. \<^verbatim>\<open>demoSessions.set\<close> replaces the value of a key that is
  present and appends a new key.
\<close>

definition createDemoLogin ::
    "string \<Rightarrow> int \<Rightarrow> string \<Rightarrow> string \<Rightarrow> DemoState \<Rightarrow> DemoState \<times> DemoLoginResponse" where
  "createDemoLogin sid now accessToken refreshToken st =
     (let expires = now + 24 * 60 * 60 * 1000;
          session = \<lparr>username = DEMO_USERNAME, createdAt = now, expiresAt = expires,
                     sessionId = sid\<rparr>
      in (st\<lparr>demoSessions := AList.update sid session (demoSessions st)\<rparr>,
          \<lparr>access_token = accessToken, refresh_token = refreshToken,
           token_type = ''bearer'', role = DEMO_ROLE_ID, permissions = DEMO_PERMISSIONS,
           login_isDemo = True, login_expiresAt = expires\<rparr>))"

definition getResetState :: "DemoState \<Rightarrow> DemoResetState" where
  "getResetState st = resetState st"

definition initializeDemoReset :: "DemoModeConfig \<Rightarrow> int \<Rightarrow> DemoState \<Rightarrow> DemoState" where
  "initializeDemoReset cfg now st =
     (if \<not> enabled cfg then st
      else st\<lparr>resetState := (resetState st)
                 \<lparr>lastReset := Some now,
                  nextReset := Some (now + configResetIntervalHours cfg * 60 * 60 * 1000)\<rparr>,
              intervalTimers :=
                 intervalTimers st @ [configResetIntervalHours cfg * 60 * 60 * 1000]\<rparr>)"

definition performDemoReset :: "DemoModeConfig \<Rightarrow> int \<Rightarrow> DemoState \<Rightarrow> DemoState" where
  "performDemoReset cfg now st =
     st\<lparr>demoSessions := [],
        resetState := (resetState st)
          \<lparr>lastReset := Some now,
           nextReset := Some (now + configResetIntervalHours cfg * 60 * 60 * 1000)\<rparr>\<rparr>"

text \<open>
  \<^verbatim>\<open>getActiveDemoSessionCount\<close>: every entry with \<^verbatim>\<open>session.expiresAt < now\<close> is
  deleted, then the size of the map is returned.
\<close>

definition expired :: "int \<Rightarrow> string \<times> DemoSession \<Rightarrow> bool" where
  "expired now entry = (expiresAt (snd entry) < now)"

definition getActiveDemoSessionCount :: "int \<Rightarrow> DemoState \<Rightarrow> DemoState \<times> nat" where
  "getActiveDemoSessionCount now st =
     (let kept = filter (\<lambda>entry. \<not> expired now entry) (demoSessions st)
      in (st\<lparr>demoSessions := kept\<rparr>, length kept))"

text \<open>
  The session that \<^verbatim>\<open>createDemoLogin\<close> stores when it runs at time \<open>T\<close> with the
  identifier \<open>sid\<close>.
\<close>

definition createdSession :: "string \<Rightarrow> int \<Rightarrow> DemoSession" where
  "createdSession sid T =
     \<lparr>username = DEMO_USERNAME, createdAt = T, expiresAt = T + 24 * 60 * 60 * 1000,
      sessionId = sid\<rparr>"

text \<open>
  The specification's wording of activity, \<open>now < expiresAt\<close>, and the number of
  sessions of a store that are active in that sense.
\<close>

definition spec_active :: "int \<Rightarrow> DemoSession \<Rightarrow> bool" where
  "spec_active now session = (now < expiresAt session)"

definition specActiveCount :: "int \<Rightarrow> DemoState \<Rightarrow> nat" where
  "specActiveCount now st =
     length (filter (\<lambda>entry. spec_active now (snd entry)) (demoSessions st))"

text \<open>
  The invariant of the reset state: both timestamps are set, and the next reset is the
  last reset plus the interval of the record, in milliseconds.
\<close>

definition resetInvariant :: "DemoResetState \<Rightarrow> bool" where
  "resetInvariant rs =
     (case (lastReset rs, nextReset rs) of
        (Some l, Some n) \<Rightarrow> n = l + resetIntervalHours rs * (60 * 60 * 1000)
      | _ \<Rightarrow> False)"

subsection \<open>The middleware\<close>

text \<open>
  The part of the request that the middleware reads or writes: \<^verbatim>\<open>req.path\<close> and
  \<^verbatim>\<open>req.method\<close> (the fields \<open>req_path\<close> and \<open>req_method\<close>),
  \<^verbatim>\<open>req.headers.authorization\<close>, \<^verbatim>\<open>req.user\<close> and \<^verbatim>\<open>req.isDemo\<close>.
\<close>

record Request =
  req_path :: string
  req_method :: string
  authorization :: "string option"
  user :: "string option"
  isDemo :: "bool option"

text \<open>
  Modelled from the spec: \<^verbatim>\<open>verifyToken\<close> of \<^verbatim>\<open>services/auth.js\<close>, which is not among
  the sources. It is a parameter \<open>verifyToken token kind\<close> that yields the token's
  payload or nothing; the specification's contract is that it does not throw, and a
  verifier that breaks the contract yields \<open>Inl\<close>.
\<close>

datatype TokenPayload = TokenPayload (payload_username: string)

type_synonym verifier = "string \<Rightarrow> string \<Rightarrow> error + TokenPayload option"

text \<open>The call of \<^verbatim>\<open>verifyToken\<close> is not guarded: its exception is the function's.\<close>

definition extractUserFromToken :: "verifier \<Rightarrow> string option \<Rightarrow> error + string option" where
  "extractUserFromToken verifyToken authHeader =
     (case authHeader of
        None \<Rightarrow> Inr None
      | Some h \<Rightarrow>
         (if h = [] \<or> \<not> prefix ''Bearer '' h then Inr None
          else (case verifyToken (drop 7 h) ''access'' of
                  Inl e \<Rightarrow> Inl e
                | Inr None \<Rightarrow> Inr None
                | Inr (Some result) \<Rightarrow> Inr (or_else (Some (payload_username result)) None))))"

text \<open>
  What the middleware does besides updating the request: it calls \<^verbatim>\<open>next\<close>, it writes
  a response with \<^verbatim>\<open>res.json\<close>, or an exception leaves it.
\<close>

datatype effect = Next | Json SimulatedResponse | Raise error

text \<open>
  \<^verbatim>\<open>req.user || extractUserFromToken(req.headers.authorization) || undefined\<close>; the
  token is looked at only when \<^verbatim>\<open>req.user\<close> is falsy.
\<close>

definition resolveUsername :: "verifier \<Rightarrow> Request \<Rightarrow> error + string option" where
  "resolveUsername verifyToken req =
     (if truthy (user req) then Inr (user req)
      else (case extractUserFromToken verifyToken (authorization req) of
              Inl e \<Rightarrow> Inl e
            | Inr extracted \<Rightarrow> Inr (or_else extracted None)))"

text \<open>
  The function has no \<^verbatim>\<open>try\<close>: an exception of the verifier or of the route lookup
  leaves it, before \<^verbatim>\<open>next\<close> or \<^verbatim>\<open>res.json\<close> is reached. An action that is not a
  string is not in the list of simulated actions, which holds strings.
\<close>

definition demoMiddleware ::
    "DemoModeConfig \<Rightarrow> engine \<Rightarrow> verifier \<Rightarrow> Request \<Rightarrow> Request \<times> effect list" where
  "demoMiddleware cfg engine verifyToken req =
     (if \<not> isDemoModeEnabled cfg then (req, [Next])
      else
        (case resolveUsername verifyToken req of
           Inl e \<Rightarrow> (req, [Raise e])
         | Inr resolved \<Rightarrow>
            if \<not> isDemoUser resolved then (req, [Next])
            else
              let req' = req\<lparr>isDemo := Some True, user := resolved\<rparr> in
              (case getRouteAction engine (req_path req') (req_method req') of
                 Inl e \<Rightarrow> (req', [Raise e])
               | Inr None \<Rightarrow> (req', [Next])
               | Inr (Some (Str a)) \<Rightarrow>
                  (if a = [] \<or> \<not> shouldSimulateAction cfg a then (req', [Next])
                   else (req', [Json (createSimulatedResponse a None)]))
               | Inr (Some other) \<Rightarrow> (req', [Next]))))"

definition checkDemoUser :: "DemoModeConfig \<Rightarrow> Request \<Rightarrow> bool" where
  "checkDemoUser cfg req = (isDemoModeEnabled cfg \<and> isDemoUser (user req))"

subsection \<open>Concrete inputs\<close>

definition demoConfig :: DemoModeConfig where
  "demoConfig =
     \<lparr>enabled = True, configResetIntervalHours = 24,
      simulatedActions = [''server.start'', ''backups.create'']\<rparr>"

definition disabledConfig :: DemoModeConfig where
  "disabledConfig =
     \<lparr>enabled = False, configResetIntervalHours = 24,
      simulatedActions = [''server.start'']\<rparr>"

definition backupRequest :: Request where
  "backupRequest =
     \<lparr>req_path = ''/api/backups'', req_method = ''POST'', authorization = None,
      user = Some ''__demo__'', isDemo = None\<rparr>"

text \<open>A request of a caller known by a bearer token only.\<close>

definition bearerRequest :: Request where
  "bearerRequest =
     \<lparr>req_path = ''/api/backups'', req_method = ''POST'',
      authorization = Some ''Bearer demo-token'', user = None, isDemo = None\<rparr>"

text \<open>A verifier that accepts the token \<open>demo-token\<close> of the demo user and nothing else.\<close>

definition demoVerifier :: verifier where
  "demoVerifier token kind =
     (if token = ''demo-token'' \<and> kind = ''access'' then Inr (Some (TokenPayload ''__demo__''))
      else Inr None)"

text \<open>A verifier that breaks the contract: it throws on every token.\<close>

definition throwingVerifier :: verifier where
  "throwingVerifier token kind = Inl (Thrown ''invalid token'')"

text \<open>
  An engine for concrete evaluations, after ECMAScript 2024: of a built-in function the
  accessors \<^verbatim>\<open>caller\<close> and \<^verbatim>\<open>arguments\<close> throw, \<^verbatim>\<open>name\<close> and \<^verbatim>\<open>length\<close>
  are its name and arity, the other names are looked up among the properties of the
  function \<^verbatim>\<open>Object\<close> (for \<^verbatim>\<open>constructor\<close>), of \<^verbatim>\<open>Function.prototype\<close> and of
  \<^verbatim>\<open>Object.prototype\<close>; the member \<^verbatim>\<open>__proto__\<close> is \<^verbatim>\<open>Object.prototype\<close>, whose
  own \<^verbatim>\<open>__proto__\<close> is \<^verbatim>\<open>null\<close>.
\<close>

definition builtinLength :: "string \<Rightarrow> int" where
  "builtinLength member =
     (if member \<in> set [''__defineGetter__'', ''__defineSetter__''] then 2
      else if member \<in> set [''toString'', ''valueOf'', ''toLocaleString''] then 0
      else 1)"

definition objectConstructorKeys :: "string list" where
  "objectConstructorKeys =
     [''prototype'', ''assign'', ''getOwnPropertyDescriptor'',
      ''getOwnPropertyDescriptors'', ''getOwnPropertyNames'', ''getOwnPropertySymbols'',
      ''hasOwn'', ''is'', ''preventExtensions'', ''seal'', ''create'', ''defineProperties'',
      ''defineProperty'', ''freeze'', ''getPrototypeOf'', ''setPrototypeOf'',
      ''isExtensible'', ''isFrozen'', ''isSealed'', ''keys'', ''entries'', ''fromEntries'',
      ''values'', ''groupBy'']"

definition functionPrototypeKeys :: "string list" where
  "functionPrototypeKeys = [''constructor'', ''apply'', ''bind'', ''call'', ''toString'']"

definition standardEngine :: engine where
  "standardEngine member key =
     (if member = ''__proto__''
      then Inr (if key = ''__proto__'' then Null
                else if key \<in> set objectPrototypeKeys then inheritedMember key
                else Undefined)
      else if key = ''caller'' \<or> key = ''arguments'' then Inl TypeError
      else if key = ''name''
        then Inr (Str (if member = ''constructor'' then ''Object'' else member))
      else if key = ''length'' then Inr (Num (builtinLength member))
      else if member = ''constructor'' \<and> key \<in> set objectConstructorKeys
        then Inr (Obj (''Object.'' @ key))
      else if key \<in> set functionPrototypeKeys then Inr (Obj (''Function.prototype.'' @ key))
      else if key \<in> set objectPrototypeKeys then Inr (inheritedMember key)
      else Inr Undefined)"

section \<open>Auxiliary facts\<close>

lemma truthy_simps:
  "truthy None = False" "truthy (Some s) = (s \<noteq> [])"
  by (simp_all add: truthy_def)

lemma js_truthy_simps:
  "js_truthy Undefined = False" "js_truthy Null = False" "js_truthy (Num n) = (n \<noteq> 0)"
  "js_truthy (Str s) = (s \<noteq> [])" "js_truthy (Obj name) = True"
  by (simp_all add: js_truthy_def)

subsection \<open>Matching\<close>

lemma regex_test_literal: "regex_test (map Lit k) p = (p = k)"
proof (induction k arbitrary: p)
  case Nil
  then show ?case by simp
next
  case (Cons c k)
  then show ?case by (cases p) auto
qed

lemma regex_test_literal_prefix: "regex_test (map Lit k @ ts) (k @ r) = regex_test ts r"
  by (induction k) simp_all

lemma regex_test_segment:
  "s \<noteq> [] \<Longrightarrow> CHR ''/'' \<notin> set s \<Longrightarrow> regex_test ts r \<Longrightarrow> regex_test (Seg # ts) (s @ r)"
proof (induction s)
  case Nil
  then show ?case by simp
next
  case (Cons c s)
  then show ?case by (cases s) auto
qed

lemma regex_test_seg_regex:
  "s \<noteq> [] \<Longrightarrow> CHR ''/'' \<notin> set s \<Longrightarrow> regex_test (seg_regex pre post) (pre @ s @ post)"
  unfolding seg_regex_def
  by (simp add: regex_test_literal_prefix regex_test_segment regex_test_literal)

lemma routeRegex_plain: "CHR '':'' \<notin> set k \<Longrightarrow> routeRegex k = map Lit k"
  by (induction k) auto

subsection \<open>The table\<close>

lemma keys_plain: "\<forall>k \<in> fst ` set ROUTE_ACTION_MAP. CHR '':'' \<notin> set k"
  by (simp add: ROUTE_ACTION_MAP_def)

lemma keys_distinct: "distinct (map fst ROUTE_ACTION_MAP)"
  by (simp add: ROUTE_ACTION_MAP_def)

text \<open>
  On a table of literal keys the loop returns at the entry of the path, if at all, with
  the value that the exact lookup reads there.
\<close>

lemma patternLoop_absent:
  "\<forall>k \<in> fst ` set tbl. CHR '':'' \<notin> set k \<Longrightarrow> p \<notin> fst ` set tbl \<Longrightarrow>
   patternLoop tbl p m = None"
  by (induction tbl) (auto simp: routeRegex_plain regex_test_literal)

lemma patternLoop_literal:
  "\<forall>k \<in> fst ` set tbl. CHR '':'' \<notin> set k \<Longrightarrow> distinct (map fst tbl) \<Longrightarrow>
   patternLoop tbl p m =
     (case map_of tbl p of
        Some mm \<Rightarrow> (if js_truthy (objectRead mm m) then Some (objectRead mm m) else None)
      | None \<Rightarrow> None)"
proof (induction tbl)
  case Nil
  then show ?case by simp
next
  case (Cons e tbl)
  obtain k mm where e: "e = (k, mm)" by (cases e)
  from Cons.prems have plain: "CHR '':'' \<notin> set k" "\<forall>k \<in> fst ` set tbl. CHR '':'' \<notin> set k"
    and dist: "k \<notin> fst ` set tbl" "distinct (map fst tbl)"
    by (auto simp: e)
  show ?case
  proof (cases "p = k")
    case True
    with plain dist show ?thesis
      by (simp add: e routeRegex_plain regex_test_literal patternLoop_absent)
  next
    case False
    have "patternLoop (e # tbl) p m = patternLoop tbl p m"
      using False plain by (simp add: e routeRegex_plain regex_test_literal)
    with Cons.IH plain dist False show ?thesis
      by (simp add: e)
  qed
qed

lemma patternLoop_after_exactMatch:
  assumes "\<forall>k \<in> fst ` set tbl. CHR '':'' \<notin> set k" and "distinct (map fst tbl)"
    and "exactMatch engine tbl p m = Inr None"
  shows "patternLoop tbl p m = None"
proof (cases "map_of tbl p")
  case None
  then show ?thesis
    by (simp add: patternLoop_literal [OF assms(1,2)])
next
  case (Some mm)
  with assms(3) have "\<not> js_truthy (objectRead mm m)"
    by (simp add: exactMatch_def split: if_splits)
  with Some show ?thesis
    by (simp add: patternLoop_literal [OF assms(1,2)])
qed

lemmas patternLoop_table = patternLoop_after_exactMatch [OF keys_plain keys_distinct]

lemma exactMatch_player_path:
  "post \<noteq> [] \<Longrightarrow> exactMatch engine ROUTE_ACTION_MAP (''/api/players/'' @ s @ post) m = Inr None"
  by (cases post) (simp_all add: exactMatch_def ROUTE_ACTION_MAP_def objectPrototypeKeys_def)

subsection \<open>The first match in declaration order\<close>






subsection \<open>Evaluations\<close>

lemma getRouteAction_backups_post:
  "getRouteAction engine ''/api/backups'' ''POST'' = Inr (Some (Str ''backups.create''))"
  by (simp add: getRouteAction_def resolveRoute_def exactMatch_def ROUTE_ACTION_MAP_def
      objectRead_def js_truthy_simps)

lemma createSimulatedResponse_backups_create:
  "createSimulatedResponse ''backups.create'' None =
     \<lparr>success = True, message = Str ''Backup wird erstellt... (Demo)'', simulated = True\<rparr>"
  by (simp add: createSimulatedResponse_def js_or_def of_optional_def objectRead_def
      js_truthy_simps messages_def)

lemma update_entry_mem: "(k, v) \<in> set (AList.update k v al)"
  by (induction al) auto

lemma update_lookup: "map_of (AList.update k v al) k = Some v"
  by (simp add: update_conv')

text \<open>
  What \<^verbatim>\<open>createSimulatedResponse\<close> returns for an action that is not the name of an
  inherited member.
\<close>

lemma createSimulatedResponse_envelope:
  "success (createSimulatedResponse action customMessage)
   \<and> simulated (createSimulatedResponse action customMessage)
   \<and> (map_of messages action = None \<and> action \<notin> set objectPrototypeKeys
        \<and> \<not> truthy customMessage \<longrightarrow>
        message (createSimulatedResponse action customMessage) = Str fallbackMessage)"
  by (cases customMessage)
     (simp_all add: createSimulatedResponse_def js_or_def of_optional_def objectRead_def
        js_truthy_simps truthy_simps)

text \<open>
  The two lookups with a name of \<^verbatim>\<open>Object.prototype\<close>: as a path, where the engine
  reads the name of the function \<^verbatim>\<open>Object\<close>, and as a method, where the table's entry
  inherits the function.
\<close>

lemma getRouteAction_inherited_names:
  "getRouteAction standardEngine ''constructor'' ''name'' = Inr (Some (Str ''Object''))
   \<and> getRouteAction standardEngine ''/api/backups'' ''constructor'' =
       Inr (Some (Obj ''Object.prototype.constructor''))
   \<and> getRouteAction standardEngine ''toString'' ''caller'' = Inl TypeError"
  by (simp add: getRouteAction_def resolveRoute_def exactMatch_def ROUTE_ACTION_MAP_def
      objectRead_def objectPrototypeKeys_def inheritedMember_def standardEngine_def
      js_truthy_simps)

section \<open>The claims\<close>

text \<open>
  Claim C1. With demo mode enabled, the caller resolved to the demo sentinel and
  \<open>backups.create\<close> in the list of simulated actions, the middleware answers
  \<^verbatim>\<open>POST /api/backups\<close> with exactly the body
  \<^verbatim>\<open>{ success: true, message: 'Backup wird erstellt... (Demo)', simulated: true }\<close>,
  the message configured for \<open>backups.create\<close>, and does not call \<^verbatim>\<open>next\<close>.
\<close>

theorem demoMiddleware_simulates_backup_create:
  assumes "isDemoModeEnabled cfg"
    and "resolveUsername verifyToken req = Inr (Some DEMO_USERNAME)"
    and "''backups.create'' \<in> set (simulatedActions cfg)"
    and "req_path req = ''/api/backups''"
    and "req_method req = ''POST''"
  shows "snd (demoMiddleware cfg engine verifyToken req) =
           [Json \<lparr>success = True, message = Str ''Backup wird erstellt... (Demo)'',
                  simulated = True\<rparr>]
         \<and> Next \<notin> set (snd (demoMiddleware cfg engine verifyToken req))
         \<and> map_of messages ''backups.create'' = Some ''Backup wird erstellt... (Demo)''"
proof -
  have "snd (demoMiddleware cfg engine verifyToken req) =
          [Json (createSimulatedResponse ''backups.create'' None)]"
    using assms
    by (simp add: demoMiddleware_def isDemoUser_def shouldSimulateAction_def Let_def
        getRouteAction_backups_post)
  moreover have "map_of messages ''backups.create'' = Some ''Backup wird erstellt... (Demo)''"
    by (simp add: messages_def)
  ultimately show ?thesis
    by (simp add: createSimulatedResponse_backups_create)
qed

theorem demoMiddleware_simulates_backup_create_witness:
  "isDemoModeEnabled demoConfig
   \<and> resolveUsername demoVerifier bearerRequest = Inr (Some DEMO_USERNAME)
   \<and> ''backups.create'' \<in> set (simulatedActions demoConfig)
   \<and> req_path bearerRequest = ''/api/backups''
   \<and> req_method bearerRequest = ''POST''
   \<and> snd (demoMiddleware demoConfig standardEngine demoVerifier bearerRequest) =
        [Json \<lparr>success = True, message = Str ''Backup wird erstellt... (Demo)'',
               simulated = True\<rparr>]"
proof -
  have a: "isDemoModeEnabled demoConfig"
    by (simp add: isDemoModeEnabled_def demoConfig_def)
  have b: "resolveUsername demoVerifier bearerRequest = Inr (Some DEMO_USERNAME)"
    by (simp add: resolveUsername_def extractUserFromToken_def bearerRequest_def
        demoVerifier_def or_else_def truthy_simps DEMO_USERNAME_def)
  have c: "''backups.create'' \<in> set (simulatedActions demoConfig)"
    by (simp add: demoConfig_def)
  have d: "req_path bearerRequest = ''/api/backups''"
    by (simp add: bearerRequest_def)
  have e: "req_method bearerRequest = ''POST''"
    by (simp add: bearerRequest_def)
  from demoMiddleware_simulates_backup_create [OF a b c d e, of standardEngine] a b c d e
  show ?thesis by simp
qed

text \<open>
  Claim C2, as the specification words it: \<^verbatim>\<open>shouldSimulateAction\<close> is false whenever
  \<^verbatim>\<open>isDemoModeEnabled()\<close> is false. The function does not read the enabled flag: with
  demo mode disabled and \<open>server.start\<close> in the list, it answers true.
\<close>

theorem shouldSimulateAction_disabled_counterexample:
  "\<not> isDemoModeEnabled disabledConfig \<and> shouldSimulateAction disabledConfig ''server.start''"
  by (simp add: isDemoModeEnabled_def shouldSimulateAction_def disabledConfig_def)

text \<open>
  Claim C2, amended. \<^verbatim>\<open>shouldSimulateAction\<close> is membership of the action in the
  configured list, whatever the enabled flag; the flag is the first test of the
  middleware: with demo mode disabled, every request is passed on unchanged by one call of
  \<^verbatim>\<open>next\<close> and no simulated response is written.
\<close>

theorem demoMiddleware_disabled_passes:
  "(shouldSimulateAction cfg action \<longleftrightarrow> action \<in> set (simulatedActions cfg))
   \<and> (shouldSimulateAction (cfg\<lparr>enabled := b\<rparr>) action \<longleftrightarrow> shouldSimulateAction cfg action)
   \<and> (\<not> isDemoModeEnabled cfg \<longrightarrow>
        demoMiddleware cfg engine verifyToken req = (req, [Next]))"
  by (simp add: shouldSimulateAction_def demoMiddleware_def)

theorem demoMiddleware_disabled_passes_witness:
  "\<not> isDemoModeEnabled disabledConfig
   \<and> demoMiddleware disabledConfig standardEngine demoVerifier backupRequest =
       (backupRequest, [Next])"
proof -
  have a: "\<not> isDemoModeEnabled disabledConfig"
    by (simp add: isDemoModeEnabled_def disabledConfig_def)
  from demoMiddleware_disabled_passes
         [of disabledConfig _ _ standardEngine demoVerifier backupRequest] a
  show ?thesis by simp
qed




text \<open>
  Claim C4, as the specification words it, for every segment without a slash. The group
  \<^verbatim>\<open>[^/]+\<close> needs one character at least: for the empty segment, the path
  \<^verbatim>\<open>/api/players//kick\<close>, nothing matches and the result is \<^verbatim>\<open>null\<close>.
\<close>

theorem getRouteAction_empty_segment_counterexample:
  "CHR ''/'' \<notin> set ''''
   \<and> getRouteAction standardEngine (''/api/players/'' @ '''' @ ''/kick'') ''POST'' = Inr None"
  by (simp add: getRouteAction_def resolveRoute_def exactMatch_def ROUTE_ACTION_MAP_def
      dynamicRoutes_def seg_regex_def routeRegex_plain objectRead_def objectPrototypeKeys_def
      js_truthy_simps)

text \<open>
  Claim C4, amended. For every segment \<open>s\<close> that is not empty and has no slash,
  \<^verbatim>\<open>POST /api/players/s/kick\<close> resolves to \<open>players.kick\<close> and
  \<^verbatim>\<open>DELETE /api/players/s/ban\<close> resolves to \<open>players.unban\<close>.
\<close>

theorem getRouteAction_player_segment:
  assumes "s \<noteq> []" and "CHR ''/'' \<notin> set s"
  shows "getRouteAction engine (''/api/players/'' @ s @ ''/kick'') ''POST'' =
           Inr (Some (Str ''players.kick''))
         \<and> getRouteAction engine (''/api/players/'' @ s @ ''/ban'') ''DELETE'' =
           Inr (Some (Str ''players.unban''))"
proof
  let ?p = "''/api/players/'' @ s @ ''/kick''"
  have e: "exactMatch engine ROUTE_ACTION_MAP ?p ''POST'' = Inr None"
    by (rule exactMatch_player_path) simp
  have l: "patternLoop ROUTE_ACTION_MAP ?p ''POST'' = None"
    using e by (rule patternLoop_table)
  have r: "regex_test (seg_regex ''/api/players/'' ''/kick'') ?p"
    using assms by (rule regex_test_seg_regex)
  have "firstDynamicMatch dynamicRoutes ?p ''POST'' = Some ''players.kick''"
    unfolding dynamicRoutes_def using r
    by (simp only: firstDynamicMatch.simps simp_thms if_True)
  with e l show "getRouteAction engine ?p ''POST'' = Inr (Some (Str ''players.kick''))"
    by (simp only: getRouteAction_def resolveRoute_def sum.case option.case option.map)
next
  let ?p = "''/api/players/'' @ s @ ''/ban''"
  have e: "exactMatch engine ROUTE_ACTION_MAP ?p ''DELETE'' = Inr None"
    by (rule exactMatch_player_path) simp
  have l: "patternLoop ROUTE_ACTION_MAP ?p ''DELETE'' = None"
    using e by (rule patternLoop_table)
  have r: "regex_test (seg_regex ''/api/players/'' ''/ban'') ?p"
    using assms by (rule regex_test_seg_regex)
  have m: "''DELETE'' \<noteq> ''POST''"
    by simp
  have "firstDynamicMatch dynamicRoutes ?p ''DELETE'' = Some ''players.unban''"
    unfolding dynamicRoutes_def using r m
    by (simp only: firstDynamicMatch.simps simp_thms if_True if_False)
  with e l show "getRouteAction engine ?p ''DELETE'' = Inr (Some (Str ''players.unban''))"
    by (simp only: getRouteAction_def resolveRoute_def sum.case option.case option.map)
qed

theorem getRouteAction_player_segment_witness:
  "''alice'' \<noteq> [] \<and> CHR ''/'' \<notin> set ''alice''
   \<and> getRouteAction standardEngine ''/api/players/alice/kick'' ''POST'' =
       Inr (Some (Str ''players.kick''))
   \<and> getRouteAction standardEngine ''/api/players/alice/ban'' ''DELETE'' =
       Inr (Some (Str ''players.unban''))"
proof -
  have a: "''alice'' \<noteq> []" by simp
  have b: "CHR ''/'' \<notin> set ''alice''" by simp
  from getRouteAction_player_segment [OF a b, of standardEngine] a b show ?thesis by simp
qed

text \<open>
  Claim C5, as the specification words it: the count is the number of sessions with
  \<open>now < expiresAt\<close>. A session created at time 0 expires at 86400000; queried at
  exactly that time it is still counted, although it is not active in the
  specification's sense.
\<close>

theorem getActiveDemoSessionCount_boundary_counterexample:
  "snd (getActiveDemoSessionCount 86400000
          (fst (createDemoLogin ''demo_0_abc'' 0 ''a'' ''r'' (initialState demoConfig)))) = 1
   \<and> specActiveCount 86400000
          (fst (createDemoLogin ''demo_0_abc'' 0 ''a'' ''r'' (initialState demoConfig))) = 0"
  by (simp add: createDemoLogin_def getActiveDemoSessionCount_def Let_def expired_def
      initialState_def specActiveCount_def spec_active_def)

text \<open>
  Claim C5, amended: a session is counted iff \<open>now \<le> expiresAt\<close>. After
  \<^verbatim>\<open>createDemoLogin\<close> at time \<open>T\<close> the store maps the identifier to a session that
  expires at \<open>T\<close> plus 24 hours; a query at time \<open>now\<close> leaves in the store exactly the
  entries with \<open>now \<le> expiresAt\<close>, the others being deleted, and returns their number;
  so the created session is in the store after a query at \<open>T\<close>, and no longer after a
  query at \<open>T\<close> plus 24 hours and one second.
\<close>

theorem getActiveDemoSessionCount_created_session:
  "map_of (demoSessions (fst (createDemoLogin sid T at rt st))) sid = Some (createdSession sid T)
   \<and> expiresAt (createdSession sid T) = T + 24 * 60 * 60 * 1000
   \<and> demoSessions (fst (getActiveDemoSessionCount now (fst (createDemoLogin sid T at rt st)))) =
       filter (\<lambda>entry. now \<le> expiresAt (snd entry))
         (demoSessions (fst (createDemoLogin sid T at rt st)))
   \<and> snd (getActiveDemoSessionCount now (fst (createDemoLogin sid T at rt st))) =
       length (filter (\<lambda>entry. now \<le> expiresAt (snd entry))
                 (demoSessions (fst (createDemoLogin sid T at rt st))))
   \<and> ((sid, createdSession sid T) \<in>
          set (demoSessions
                 (fst (getActiveDemoSessionCount now (fst (createDemoLogin sid T at rt st)))))
        \<longleftrightarrow> now \<le> T + 24 * 60 * 60 * 1000)
   \<and> (sid, createdSession sid T) \<in>
          set (demoSessions
                 (fst (getActiveDemoSessionCount T (fst (createDemoLogin sid T at rt st)))))
   \<and> (sid, createdSession sid T) \<notin>
          set (demoSessions
                 (fst (getActiveDemoSessionCount (T + 24 * 60 * 60 * 1000 + 1000)
                         (fst (createDemoLogin sid T at rt st)))))"
  by (simp add: createDemoLogin_def getActiveDemoSessionCount_def Let_def expired_def
      createdSession_def update_entry_mem update_lookup not_less)

theorem getActiveDemoSessionCount_created_session_witness:
  "snd (getActiveDemoSessionCount 0
          (fst (createDemoLogin ''demo_0_abc'' 0 ''a'' ''r'' (initialState demoConfig)))) = 1
   \<and> snd (getActiveDemoSessionCount 86401000
          (fst (createDemoLogin ''demo_0_abc'' 0 ''a'' ''r'' (initialState demoConfig)))) = 0"
proof -
  let ?st = "fst (createDemoLogin ''demo_0_abc'' 0 ''a'' ''r'' (initialState demoConfig))"
  have s: "demoSessions ?st = [(''demo_0_abc'', createdSession ''demo_0_abc'' 0)]"
    by (simp add: createDemoLogin_def initialState_def createdSession_def)
  have e: "expiresAt (createdSession ''demo_0_abc'' 0) = 86400000"
    by (simp add: createdSession_def)
  have "snd (getActiveDemoSessionCount now ?st) =
          length (filter (\<lambda>entry. now \<le> expiresAt (snd entry)) (demoSessions ?st))" for now
    using getActiveDemoSessionCount_created_session
            [of "''demo_0_abc''" 0 "''a''" "''r''" "initialState demoConfig" now]
    by blast
  then show ?thesis
    by (simp add: s e)
qed

text \<open>
  Claim C6. \<^verbatim>\<open>performDemoReset\<close> empties the session store, so that a following count
  is 0, records the time of the reset and sets the next reset to that time plus the
  configured interval in milliseconds; \<^verbatim>\<open>initializeDemoReset\<close> sets the same two
  timestamps when demo mode is enabled. The interval of the reset-state record is the
  configured one from the start of the module and no function changes it, so the
  invariant holds of the record itself.
\<close>

theorem performDemoReset_invariant:
  "demoSessions (performDemoReset cfg now st) = []
   \<and> snd (getActiveDemoSessionCount t (performDemoReset cfg now st)) = 0
   \<and> lastReset (resetState (performDemoReset cfg now st)) = Some now
   \<and> nextReset (resetState (performDemoReset cfg now st)) =
        Some (now + configResetIntervalHours cfg * (60 * 60 * 1000))
   \<and> (resetIntervalHours (resetState st) = configResetIntervalHours cfg \<longrightarrow>
        resetInvariant (resetState (performDemoReset cfg now st)))
   \<and> (enabled cfg \<longrightarrow>
        lastReset (resetState (initializeDemoReset cfg now st)) = Some now
        \<and> nextReset (resetState (initializeDemoReset cfg now st)) =
            Some (now + configResetIntervalHours cfg * (60 * 60 * 1000)))
   \<and> (enabled cfg \<and> resetIntervalHours (resetState st) = configResetIntervalHours cfg \<longrightarrow>
        resetInvariant (resetState (initializeDemoReset cfg now st)))
   \<and> resetIntervalHours (resetState (initialState cfg)) = configResetIntervalHours cfg
   \<and> resetIntervalHours (resetState (performDemoReset cfg now st)) =
        resetIntervalHours (resetState st)
   \<and> resetIntervalHours (resetState (initializeDemoReset cfg now st)) =
        resetIntervalHours (resetState st)"
  by (simp add: performDemoReset_def initializeDemoReset_def getActiveDemoSessionCount_def
      resetInvariant_def initialState_def)

theorem performDemoReset_invariant_witness:
  "enabled demoConfig
   \<and> resetIntervalHours (resetState (initialState demoConfig)) =
        configResetIntervalHours demoConfig
   \<and> resetInvariant (resetState (initializeDemoReset demoConfig 1000 (initialState demoConfig)))
   \<and> resetInvariant (resetState (performDemoReset demoConfig 1000 (initialState demoConfig)))
   \<and> nextReset (resetState (performDemoReset demoConfig 1000 (initialState demoConfig))) =
        Some 86401000"
proof -
  have a: "enabled demoConfig"
    by (simp add: demoConfig_def)
  have b: "resetIntervalHours (resetState (initialState demoConfig)) =
             configResetIntervalHours demoConfig"
    by (simp add: initialState_def)
  have c: "configResetIntervalHours demoConfig = 24"
    by (simp add: demoConfig_def)
  from performDemoReset_invariant [of demoConfig 1000 "initialState demoConfig"] a b c
  show ?thesis by simp
qed





text \<open>
  Claim C9. For a header that is absent, or that does not start with \<open>Bearer \<close>,
  \<^verbatim>\<open>extractUserFromToken\<close> returns \<^verbatim>\<open>null\<close>, whatever the token verifier would
  answer or throw: the verifier is not consulted, and nothing is raised.
\<close>

theorem extractUserFromToken_no_bearer:
  "extractUserFromToken verifyToken None = Inr None
   \<and> (\<not> prefix ''Bearer '' h \<longrightarrow> extractUserFromToken verifyToken (Some h) = Inr None)"
  by (simp add: extractUserFromToken_def)

theorem extractUserFromToken_no_bearer_witness:
  "\<not> prefix ''Bearer '' ''Basic ZGVtbzpkZW1v''
   \<and> extractUserFromToken throwingVerifier (Some ''Basic ZGVtbzpkZW1v'') = Inr None
   \<and> extractUserFromToken throwingVerifier None = Inr None"
proof -
  have a: "\<not> prefix ''Bearer '' ''Basic ZGVtbzpkZW1v''"
    by simp
  from extractUserFromToken_no_bearer [of throwingVerifier "''Basic ZGVtbzpkZW1v''"] a
  show ?thesis by simp
qed

text \<open>
  Claim C10. No key of the table contains a colon, and the loop over the table is
  redundant: for every path and method \<^verbatim>\<open>getRouteAction\<close> returns what the variant
  without the loop returns, the loop returning nothing whenever the exact lookup did not
  return.
\<close>

theorem getRouteAction_loop_redundant:
  "list_all (\<lambda>k. CHR '':'' \<notin> set k) (map fst ROUTE_ACTION_MAP)
   \<and> getRouteAction engine p m = getRouteAction_noLoop engine p m
   \<and> (exactMatch engine ROUTE_ACTION_MAP p m = Inr None \<longrightarrow>
        patternLoop ROUTE_ACTION_MAP p m = None)"
proof (intro conjI impI)
  show "list_all (\<lambda>k. CHR '':'' \<notin> set k) (map fst ROUTE_ACTION_MAP)"
    using keys_plain by (simp add: list_all_iff)
  show "getRouteAction engine p m = getRouteAction_noLoop engine p m"
  proof (cases "exactMatch engine ROUTE_ACTION_MAP p m = Inr None")
    case True
    then have "patternLoop ROUTE_ACTION_MAP p m = None"
      by (rule patternLoop_table)
    with True show ?thesis
      by (simp add: getRouteAction_def resolveRoute_def getRouteAction_noLoop_def)
  next
    case False
    then show ?thesis
      by (simp add: getRouteAction_def resolveRoute_def getRouteAction_noLoop_def
          split: sum.splits option.splits)
  qed
  show "patternLoop ROUTE_ACTION_MAP p m = None"
    if "exactMatch engine ROUTE_ACTION_MAP p m = Inr None"
    using that by (rule patternLoop_table)
qed

theorem getRouteAction_loop_redundant_witness:
  "exactMatch standardEngine ROUTE_ACTION_MAP ''/api/players/alice/kick'' ''POST'' = Inr None
   \<and> patternLoop ROUTE_ACTION_MAP ''/api/players/alice/kick'' ''POST'' = None
   \<and> getRouteAction_noLoop standardEngine ''/api/players/alice/kick'' ''POST'' =
       getRouteAction standardEngine ''/api/players/alice/kick'' ''POST''
   \<and> getRouteAction_noLoop standardEngine ''constructor'' ''name'' =
       getRouteAction standardEngine ''constructor'' ''name''"
proof -
  have a: "exactMatch standardEngine ROUTE_ACTION_MAP ''/api/players/alice/kick'' ''POST'' =
             Inr None"
    by (simp add: exactMatch_def ROUTE_ACTION_MAP_def objectPrototypeKeys_def)
  from getRouteAction_loop_redundant
         [of standardEngine "''/api/players/alice/kick''" "''POST''"]
       getRouteAction_loop_redundant [of standardEngine "''constructor''" "''name''"] a
  show ?thesis by simp
qed

end
